theory Spec2Isabelle
  imports Main "HOL-Library.Word"
begin

section \<open>The escrow contract: ethereum/contracts/SwapFactory.sol\<close>

text \<open>
  Solidity's \<open>uint256\<close> and \<open>bytes32\<close> are 256-bit words, an \<open>address\<close> is a 160-bit
  word. Comparison on words is unsigned, as in Solidity.
\<close>

type_synonym uint256 = "256 word"
type_synonym bytes32 = "256 word"
type_synonym address = "160 word"

datatype Stage = INVALID | PENDING | READY | COMPLETED

text \<open>The struct \<open>Swap\<close>; its field \<open>value\<close> is \<open>swap_value\<close> here.\<close>

record Swap =
  owner :: address
  claimer :: address
  pubKeyClaim :: bytes32
  pubKeyRefund :: bytes32
  timeout_0 :: uint256
  timeout_1 :: uint256
  swap_value :: uint256
  nonce :: uint256

text \<open>The four events of the contract, with their arguments in declaration order.\<close>

datatype Event =
    New bytes32 bytes32 bytes32 uint256 uint256
  | Ready bytes32
  | Claimed bytes32 bytes32
  | Refunded bytes32 bytes32

text \<open>
  What a call does to the outside, in program order: the events it emits and the ether it
  sends with \<open>transfer\<close>. The model follows the bodies of the functions. What the EVM
  does around them is not part of it: running out of gas, ether sent along with a call of a
  function that is not \<open>payable\<close>, and a \<open>transfer\<close> that the receiving account
  refuses (each of which reverts the call).
\<close>

datatype Effect = Emit Event | Transfer address uint256

text \<open>
  A call that fails reverts: a failed \<open>require\<close> carries its message (empty where the source
  gives none), an arithmetic overflow is the panic that Solidity 0.8 raises on checked
  arithmetic.
\<close>

datatype Revert = Require string | Panic_overflow

text \<open>
  \<open>keccak256(abi.encode(swap))\<close> and \<open>mulVerify\<close> (inherited from Secp256k1.sol) are not
  defined in SwapFactory.sol; they are parameters of the model.
\<close>

record Prims =
  keccak256_abi_encode :: "Swap \<Rightarrow> bytes32"
  mulVerify :: "uint256 \<Rightarrow> uint256 \<Rightarrow> bool"

text \<open>The part of the transaction context the contract reads.\<close>

record Tx =
  msg_sender :: address
  msg_value :: uint256
  block_timestamp :: uint256

text \<open>The storage variable \<open>mapping(bytes32 => Stage) public swaps\<close>; unset keys read \<open>INVALID\<close>.\<close>

type_synonym swaps_map = "bytes32 \<Rightarrow> Stage"

definition swaps_init :: swaps_map where
  "swaps_init = (\<lambda>_. INVALID)"

text \<open>Checked \<open>+\<close> and \<open>*\<close> of Solidity 0.8 on \<open>uint256\<close>.\<close>

definition checked_add :: "uint256 \<Rightarrow> uint256 \<Rightarrow> Revert + uint256" where
  "checked_add a b = (if unat a + unat b < 2 ^ 256 then Inr (a + b) else Inl Panic_overflow)"

definition checked_mul :: "uint256 \<Rightarrow> uint256 \<Rightarrow> Revert + uint256" where
  "checked_mul a b = (if unat a * unat b < 2 ^ 256 then Inr (a * b) else Inl Panic_overflow)"

text \<open>
  The memory struct that \<open>new_swap\<close> builds (lines 65 to 73), with the two timeouts computed
  in source order: \<open>block.timestamp + _timeoutDuration\<close>, then
  \<open>block.timestamp + (_timeoutDuration * 2)\<close>.
\<close>

definition build_swap ::
  "Tx \<Rightarrow> bytes32 \<Rightarrow> bytes32 \<Rightarrow> address \<Rightarrow> uint256 \<Rightarrow> uint256 \<Rightarrow> Revert + Swap" where
  "build_swap tx pkClaim pkRefund clm timeoutDuration nnc =
     (case checked_add (block_timestamp tx) timeoutDuration of
        Inl e \<Rightarrow> Inl e
      | Inr t0 \<Rightarrow>
          (case checked_mul timeoutDuration 2 of
             Inl e \<Rightarrow> Inl e
           | Inr d2 \<Rightarrow>
               (case checked_add (block_timestamp tx) d2 of
                  Inl e \<Rightarrow> Inl e
                | Inr t1 \<Rightarrow>
                    Inr \<lparr> owner = msg_sender tx, claimer = clm, pubKeyClaim = pkClaim,
                          pubKeyRefund = pkRefund, timeout_0 = t0, timeout_1 = t1,
                          swap_value = msg_value tx, nonce = nnc \<rparr>)))"

text \<open>
  Each function returns either a revert, or the new storage, the effects in program order
  and (for \<open>new_swap\<close>) the returned swap ID.
\<close>

definition new_swap ::
  "Prims \<Rightarrow> Tx \<Rightarrow> swaps_map \<Rightarrow> bytes32 \<Rightarrow> bytes32 \<Rightarrow> address \<Rightarrow> uint256 \<Rightarrow> uint256
     \<Rightarrow> Revert + (bytes32 \<times> swaps_map \<times> Effect list)" where
  "new_swap P tx swaps pkClaim pkRefund clm timeoutDuration nnc =
     (case build_swap tx pkClaim pkRefund clm timeoutDuration nnc of
        Inl e \<Rightarrow> Inl e
      | Inr swap \<Rightarrow>
          (let swapID = keccak256_abi_encode P swap in
           if swaps swapID \<noteq> INVALID then Inl (Require [])
           else Inr (swapID,
                     swaps(swapID := PENDING),
                     [Emit (New swapID pkClaim pkRefund (timeout_0 swap) (timeout_1 swap))])))"

definition set_ready ::
  "Prims \<Rightarrow> Tx \<Rightarrow> swaps_map \<Rightarrow> Swap \<Rightarrow> Revert + (swaps_map \<times> Effect list)" where
  "set_ready P tx swaps swap =
     (let swapID = keccak256_abi_encode P swap in
      if swaps swapID \<noteq> PENDING then Inl (Require ''swap is not in PENDING state'')
      else if owner swap \<noteq> msg_sender tx
        then Inl (Require ''only the swap owner can call set_ready'')
      else Inr (swaps(swapID := READY), [Emit (Ready swapID)]))"

definition is_ready :: "swaps_map \<Rightarrow> bytes32 \<Rightarrow> bool" where
  "is_ready swaps swapID = (swaps swapID = READY)"

definition verifySecret :: "Prims \<Rightarrow> bytes32 \<Rightarrow> bytes32 \<Rightarrow> Revert + unit" where
  "verifySecret P s pubKey =
     (if mulVerify P s pubKey then Inr ()
      else Inl (Require ''provided secret does not match the expected public key''))"

definition claim ::
  "Prims \<Rightarrow> Tx \<Rightarrow> swaps_map \<Rightarrow> Swap \<Rightarrow> bytes32 \<Rightarrow> Revert + (swaps_map \<times> Effect list)" where
  "claim P tx swaps swap s =
     (let swapID = keccak256_abi_encode P swap;
          swapStage = swaps swapID in
      if \<not> (swapStage \<noteq> COMPLETED \<and> swapStage \<noteq> INVALID)
        then Inl (Require ''swap is already completed'')
      else if msg_sender tx \<noteq> claimer swap then Inl (Require ''only claimer can claim!'')
      else if \<not> (block_timestamp tx \<ge> timeout_0 swap \<or> swapStage = READY)
        then Inl (Require ''too early to claim!'')
      else if \<not> (block_timestamp tx < timeout_1 swap) then Inl (Require ''too late to claim!'')
      else
        (case verifySecret P s (pubKeyClaim swap) of
           Inl e \<Rightarrow> Inl e
         | Inr _ \<Rightarrow>
             Inr (swaps(swapID := COMPLETED),
                  [Emit (Claimed swapID s), Transfer (claimer swap) (swap_value swap)])))"

definition refund ::
  "Prims \<Rightarrow> Tx \<Rightarrow> swaps_map \<Rightarrow> Swap \<Rightarrow> bytes32 \<Rightarrow> Revert + (swaps_map \<times> Effect list)" where
  "refund P tx swaps swap s =
     (let swapID = keccak256_abi_encode P swap;
          swapStage = swaps swapID in
      if \<not> (swapStage \<noteq> COMPLETED \<and> swapStage \<noteq> INVALID)
        then Inl (Require ''swap is already completed'')
      else if msg_sender tx \<noteq> owner swap
        then Inl (Require ''refund must be called by the swap owner'')
      else if \<not> (block_timestamp tx \<ge> timeout_1 swap \<or>
                  (block_timestamp tx < timeout_0 swap \<and> swapStage \<noteq> READY))
        then Inl (Require
          ''it's the counterparty's turn, unable to refund, try again later'')
      else
        (case verifySecret P s (pubKeyRefund swap) of
           Inl e \<Rightarrow> Inl e
         | Inr _ \<Rightarrow>
             Inr (swaps(swapID := COMPLETED),
                  [Emit (Refunded swapID s), Transfer (owner swap) (swap_value swap)])))"

text \<open>
  The state-changing entry points as one type, and the storage a transaction leaves behind:
  a reverted call leaves the storage as it was.
\<close>

datatype Call =
    Call_new_swap bytes32 bytes32 address uint256 uint256
  | Call_set_ready Swap
  | Call_claim Swap bytes32
  | Call_refund Swap bytes32

fun storage_after :: "Prims \<Rightarrow> Tx \<Rightarrow> swaps_map \<Rightarrow> Call \<Rightarrow> swaps_map" where
  "storage_after P tx swaps (Call_new_swap pkc pkr clm d n) =
     (case new_swap P tx swaps pkc pkr clm d n of Inl _ \<Rightarrow> swaps | Inr (_, swaps', _) \<Rightarrow> swaps')"
| "storage_after P tx swaps (Call_set_ready swap) =
     (case set_ready P tx swaps swap of Inl _ \<Rightarrow> swaps | Inr (swaps', _) \<Rightarrow> swaps')"
| "storage_after P tx swaps (Call_claim swap s) =
     (case claim P tx swaps swap s of Inl _ \<Rightarrow> swaps | Inr (swaps', _) \<Rightarrow> swaps')"
| "storage_after P tx swaps (Call_refund swap s) =
     (case refund P tx swaps swap s of Inl _ \<Rightarrow> swaps | Inr (swaps', _) \<Rightarrow> swaps')"

text \<open>
  Sample primitives on which the contract is run: the hash of a struct is its nonce, and a
  secret verifies against a key when the two are equal.
\<close>

definition sample_Prims :: Prims where
  "sample_Prims = \<lparr>keccak256_abi_encode = nonce, mulVerify = (\<lambda>s q. s = q)\<rparr>"

section \<open>Go values shared by the codec and the Maker\<close>

text \<open>
  A Go \<open>error\<close>: the sentinel errors declared in swap_state.go, an error made from a message
  (\<open>errors.New\<close>, \<open>fmt.Errorf\<close> without \<open>%w\<close>, or the error of a library call), and an
  error wrapping another one (\<open>fmt.Errorf("...: %w", err)\<close>). A \<open>nil\<close> error is \<open>None\<close> of
  \<open>go_error option\<close>, or the \<open>Inr\<close> side of a result.
\<close>

datatype go_error =
    errMissingKeys
  | errMissingAddress
  | errNoRefundLogsFound
  | errPastClaimTime
  | Err string
  | Wrap string go_error

text \<open>A \<open>[]byte\<close>: Isabelle's \<open>char\<close> is an 8-bit byte, written \<open>CHR 0x05\<close> by value.\<close>

type_synonym bytes = "char list"

section \<open>The message codec: package message\<close>

text \<open>The constants of \<open>type Type byte\<close>, numbered by \<open>iota\<close>.\<close>

datatype Type =
    QueryResponseType
  | SendKeysType
  | NotifyContractDeployedType
  | NotifyXMRLockType
  | NotifyReadyType
  | NotifyClaimedType
  | NotifyRefundType
  | NilType

fun Type_byte :: "Type \<Rightarrow> char" where
  "Type_byte QueryResponseType = CHR 0x00"
| "Type_byte SendKeysType = CHR 0x01"
| "Type_byte NotifyContractDeployedType = CHR 0x02"
| "Type_byte NotifyXMRLockType = CHR 0x03"
| "Type_byte NotifyReadyType = CHR 0x04"
| "Type_byte NotifyClaimedType = CHR 0x05"
| "Type_byte NotifyRefundType = CHR 0x06"
| "Type_byte NilType = CHR 0x07"

text \<open>
  The message structs. \<open>types.Offer\<close> is declared outside the given sources and stays a
  type parameter; a \<open>float64\<close> is its 64-bit pattern; a \<open>*big.Int\<close> is an optional integer.
  Two structs have a field \<open>Address\<close> and two a field \<open>TxHash\<close>: the fields of
  \<open>NotifyXMRLock\<close> and \<open>NotifyRefund\<close> carry the struct's name here.
\<close>

record 'offer QueryResponse =
  Offers :: "'offer option list"

record SendKeysMessage =
  OfferID :: string
  ProvidedAmount :: "64 word"
  PublicSpendKey :: string
  PublicViewKey :: string
  PrivateViewKey :: string
  DLEqProof :: string
  Secp256k1PublicKey :: string
  EthAddress :: string

record NotifyContractDeployed =
  Address :: string
  ContractSwapID :: "int option"

record NotifyXMRLock =
  NotifyXMRLock_Address :: string

record NotifyClaimed =
  TxHash :: string

record NotifyRefund =
  NotifyRefund_TxHash :: string

text \<open>
  A \<open>Message\<close> is an interface value holding a pointer to one of the structs; the pointer
  may be \<open>nil\<close> (\<open>None\<close>). \<open>NotifyReady\<close> is the empty struct.
\<close>

datatype 'offer Message =
    Msg_QueryResponse "'offer QueryResponse option"
  | Msg_SendKeysMessage "SendKeysMessage option"
  | Msg_NotifyContractDeployed "NotifyContractDeployed option"
  | Msg_NotifyXMRLock "NotifyXMRLock option"
  | Msg_NotifyReady "unit option"
  | Msg_NotifyClaimed "NotifyClaimed option"
  | Msg_NotifyRefund "NotifyRefund option"

text \<open>
  \<open>json.Marshal\<close> and \<open>json.Unmarshal\<close> belong to Go's library, not to this repository:
  they are parameters, one pair per struct the codec uses them at. \<open>Unmarshal\<close> fills a
  \<open>nil\<close> pointer variable, so its result is the pointer afterwards.
\<close>

record 'offer JSON =
  Marshal_QueryResponse :: "'offer QueryResponse option \<Rightarrow> go_error + bytes"
  Marshal_SendKeysMessage :: "SendKeysMessage option \<Rightarrow> go_error + bytes"
  Marshal_NotifyContractDeployed :: "NotifyContractDeployed option \<Rightarrow> go_error + bytes"
  Marshal_NotifyXMRLock :: "NotifyXMRLock option \<Rightarrow> go_error + bytes"
  Marshal_NotifyReady :: "unit option \<Rightarrow> go_error + bytes"
  Marshal_NotifyClaimed :: "NotifyClaimed option \<Rightarrow> go_error + bytes"
  Marshal_NotifyRefund :: "NotifyRefund option \<Rightarrow> go_error + bytes"
  Unmarshal_QueryResponse :: "bytes \<Rightarrow> go_error + 'offer QueryResponse option"
  Unmarshal_SendKeysMessage :: "bytes \<Rightarrow> go_error + SendKeysMessage option"
  Unmarshal_NotifyContractDeployed :: "bytes \<Rightarrow> go_error + NotifyContractDeployed option"
  Unmarshal_NotifyXMRLock :: "bytes \<Rightarrow> go_error + NotifyXMRLock option"
  Unmarshal_NotifyReady :: "bytes \<Rightarrow> go_error + unit option"
  Unmarshal_NotifyClaimed :: "bytes \<Rightarrow> go_error + NotifyClaimed option"

text \<open>The method \<open>Type\<close> of each message.\<close>

fun Type_of :: "'offer Message \<Rightarrow> Type" where
  "Type_of (Msg_QueryResponse _) = QueryResponseType"
| "Type_of (Msg_SendKeysMessage _) = SendKeysType"
| "Type_of (Msg_NotifyContractDeployed _) = NotifyContractDeployedType"
| "Type_of (Msg_NotifyXMRLock _) = NotifyXMRLockType"
| "Type_of (Msg_NotifyReady _) = NotifyReadyType"
| "Type_of (Msg_NotifyClaimed _) = NotifyClaimedType"
| "Type_of (Msg_NotifyRefund _) = NotifyRefundType"

text \<open>
  The seven \<open>Encode\<close> methods share one shape: marshal, return the error if there is one,
  otherwise put the type byte in front.
\<close>

definition prepend_type :: "Type \<Rightarrow> go_error + bytes \<Rightarrow> go_error + bytes" where
  "prepend_type t r = (case r of Inl err \<Rightarrow> Inl err | Inr b \<Rightarrow> Inr (Type_byte t # b))"

fun Encode :: "'offer JSON \<Rightarrow> 'offer Message \<Rightarrow> go_error + bytes" where
  "Encode J (Msg_QueryResponse m) = prepend_type QueryResponseType (Marshal_QueryResponse J m)"
| "Encode J (Msg_SendKeysMessage m) = prepend_type SendKeysType (Marshal_SendKeysMessage J m)"
| "Encode J (Msg_NotifyContractDeployed m) =
     prepend_type NotifyContractDeployedType (Marshal_NotifyContractDeployed J m)"
| "Encode J (Msg_NotifyXMRLock m) = prepend_type NotifyXMRLockType (Marshal_NotifyXMRLock J m)"
| "Encode J (Msg_NotifyReady m) = prepend_type NotifyReadyType (Marshal_NotifyReady J m)"
| "Encode J (Msg_NotifyClaimed m) = prepend_type NotifyClaimedType (Marshal_NotifyClaimed J m)"
| "Encode J (Msg_NotifyRefund m) = prepend_type NotifyRefundType (Marshal_NotifyRefund J m)"

text \<open>
  \<open>DecodeMessage\<close>: the \<open>switch Type(b[0])\<close> with its six cases in source order and its
  \<open>default\<close>; each case unmarshals \<open>b[1:]\<close>.
\<close>

definition decode_with ::
  "(bytes \<Rightarrow> go_error + 'a option) \<Rightarrow> ('a option \<Rightarrow> 'offer Message) \<Rightarrow> bytes
     \<Rightarrow> go_error + 'offer Message" where
  "decode_with unmarshal wrap body =
     (case unmarshal body of Inl err \<Rightarrow> Inl err | Inr m \<Rightarrow> Inr (wrap m))"

fun DecodeMessage :: "'offer JSON \<Rightarrow> bytes \<Rightarrow> go_error + 'offer Message" where
  "DecodeMessage J [] = Inl (Err ''invalid message bytes'')"
| "DecodeMessage J (t # body) =
     (if t = Type_byte QueryResponseType
        then decode_with (Unmarshal_QueryResponse J) Msg_QueryResponse body
      else if t = Type_byte SendKeysType
        then decode_with (Unmarshal_SendKeysMessage J) Msg_SendKeysMessage body
      else if t = Type_byte NotifyContractDeployedType
        then decode_with (Unmarshal_NotifyContractDeployed J) Msg_NotifyContractDeployed body
      else if t = Type_byte NotifyXMRLockType
        then decode_with (Unmarshal_NotifyXMRLock J) Msg_NotifyXMRLock body
      else if t = Type_byte NotifyReadyType
        then decode_with (Unmarshal_NotifyReady J) Msg_NotifyReady body
      else if t = Type_byte NotifyClaimedType
        then decode_with (Unmarshal_NotifyClaimed J) Msg_NotifyClaimed body
      else Inl (Err ''invalid message type''))"

text \<open>
  A small stand-in for the JSON library, precise enough to run the codec on concrete
  messages: a struct with one string field \<open>k\<close> is written \<open>{"k":"..."}\<close> and read back
  from exactly that shape, a \<open>nil\<close> pointer is \<open>null\<close>, the empty struct is \<open>{}\<close>. The
  structs with other fields are not supported by it. It is used where a theorem is
  evaluated on an input, never in a definition of the program.
\<close>

definition sample_marshal_field :: "string \<Rightarrow> string option \<Rightarrow> go_error + bytes" where
  "sample_marshal_field k v =
     (case v of
        None \<Rightarrow> Inr ''null''
      | Some x \<Rightarrow> Inr (''{\"'' @ k @ ''\":\"'' @ x @ ''\"}''))"

definition sample_unmarshal_field :: "string \<Rightarrow> bytes \<Rightarrow> go_error + string option" where
  "sample_unmarshal_field k b =
     (let pre = ''{\"'' @ k @ ''\":\"''; post = ''\"}'' in
      if b = ''null'' then Inr None
      else if length pre + length post \<le> length b \<and> take (length pre) b = pre \<and>
              drop (length b - length post) b = post
        then Inr (Some (take (length b - length pre - length post) (drop (length pre) b)))
      else Inl (Err ''unexpected end of JSON input''))"

definition sample_JSON :: "'offer JSON" where
  "sample_JSON =
     \<lparr> Marshal_QueryResponse = (\<lambda>_. Inl (Err ''json: unsupported type'')),
       Marshal_SendKeysMessage = (\<lambda>_. Inl (Err ''json: unsupported type'')),
       Marshal_NotifyContractDeployed = (\<lambda>_. Inl (Err ''json: unsupported type'')),
       Marshal_NotifyXMRLock = (\<lambda>m. sample_marshal_field ''Address''
                                       (map_option NotifyXMRLock_Address m)),
       Marshal_NotifyReady = (\<lambda>m. case m of None \<Rightarrow> Inr ''null''
                                     | Some _ \<Rightarrow> Inr ''{}''),
       Marshal_NotifyClaimed = (\<lambda>m. sample_marshal_field ''TxHash'' (map_option TxHash m)),
       Marshal_NotifyRefund = (\<lambda>m. sample_marshal_field ''TxHash''
                                      (map_option NotifyRefund_TxHash m)),
       Unmarshal_QueryResponse = (\<lambda>_. Inl (Err ''json: unsupported type'')),
       Unmarshal_SendKeysMessage = (\<lambda>_. Inl (Err ''json: unsupported type'')),
       Unmarshal_NotifyContractDeployed = (\<lambda>_. Inl (Err ''json: unsupported type'')),
       Unmarshal_NotifyXMRLock = (\<lambda>b. case sample_unmarshal_field ''Address'' b of
                                          Inl err \<Rightarrow> Inl err
                                        | Inr v \<Rightarrow> Inr (map_option
                                            (\<lambda>a. \<lparr>NotifyXMRLock_Address = a\<rparr>) v)),
       Unmarshal_NotifyReady = (\<lambda>b. if b = ''null'' then Inr None
                                      else if b = ''{}'' then Inr (Some ())
                                      else Inl (Err ''unexpected end of JSON input'')),
       Unmarshal_NotifyClaimed = (\<lambda>b. case sample_unmarshal_field ''TxHash'' b of
                                          Inl err \<Rightarrow> Inl err
                                        | Inr v \<Rightarrow> Inr (map_option (\<lambda>h. \<lparr>TxHash = h\<rparr>) v)) \<rparr>"

section \<open>The Maker's swap state: protocol/bob/swap_state.go\<close>

text \<open>
  \<open>pswap.Status\<close>: the four values swap_state.go uses. \<open>Ongoing\<close> is the status a swap is
  created with; the other three are the terminal ones.
\<close>

datatype Status = pswap_Ongoing | pswap_Success | pswap_Refunded | pswap_Aborted

fun terminal :: "Status \<Rightarrow> bool" where
  "terminal pswap_Ongoing = False"
| "terminal pswap_Success = True"
| "terminal pswap_Refunded = True"
| "terminal pswap_Aborted = True"

text \<open>
  A \<open>time.Time\<close> is a number of nanoseconds since the epoch, a \<open>time.Duration\<close> an
  \<open>int64\<close> of nanoseconds: \<open>Time.Sub\<close> saturates at the ends of the \<open>int64\<close> range and
  \<open>+\<close> on durations wraps around.
\<close>

type_synonym Time = int
type_synonym Duration = int

definition Second :: Duration where
  "Second = 1000000000"

definition minDuration :: Duration where
  "minDuration = - (2 ^ 63)"

definition maxDuration :: Duration where
  "maxDuration = 2 ^ 63 - 1"

definition Time_Sub :: "Time \<Rightarrow> Time \<Rightarrow> Duration" where
  "Time_Sub t u =
     (let d = t - u in
      if d < minDuration then minDuration else if maxDuration < d then maxDuration else d)"

definition Duration_add :: "Duration \<Rightarrow> Duration \<Rightarrow> Duration" where
  "Duration_add a b = sint (word_of_int (a + b) :: 64 word)"

text \<open>An Ethereum log, and what the contract binding returns.\<close>

record Log =
  Topics :: "bytes32 list"
  Data :: bytes

text \<open>
  The result of \<open>s.contract.Swaps\<close>, with the fields swap_state.go reads from it
  (\<open>*big.Int\<close> values as integers).
\<close>

record SwapInfo =
  IsReady :: bool
  Timeout0 :: int
  Timeout1 :: int
  Value :: int

text \<open>
  The parsed \<open>New\<close> event: the three fields \<open>checkContract\<close> reads, and the two timeouts
  that the event of SwapFactory.sol carries.
\<close>

record NewEvent =
  SwapID :: int
  ClaimKey :: bytes32
  RefundKey :: bytes32
  New_timeout_0 :: int
  New_timeout_1 :: int

text \<open>
  Everything the Maker calls outside swap_state.go, as the results those calls give: the
  Ethereum client (\<open>FilterLogs\<close> by contract address and topic, \<open>BalanceAt\<close> before and
  after the claim), the contract binding (\<open>ParseNew\<close>, \<open>Swaps\<close>, \<open>Claim\<close>,
  \<open>GetSecretFromLog\<close>), \<open>common.WaitForReceipt\<close>, the key operations (\<open>Keccak256\<close> of a
  secp256k1 public key, \<open>View\<close> of a private spend key), the floating-point conversion
  \<open>common.EtherToWei\<close>, and the wallet (\<open>WriteKeysToFile\<close>, \<open>CreateMoneroWallet\<close>).
  A secp256k1 public key is kept as its bytes, a private key as 32 bytes.
\<close>

record Env =
  FilterLogs :: "address \<Rightarrow> bytes32 \<Rightarrow> go_error + Log list"
  ParseNew :: "Log \<Rightarrow> go_error + NewEvent"
  Swaps :: "int \<Rightarrow> go_error + SwapInfo"
  Keccak256 :: "bytes \<Rightarrow> bytes32"
  EtherToWei :: "64 word \<Rightarrow> int"
  BalanceAt_before :: "go_error + int"
  Claim :: "int \<Rightarrow> go_error + bytes32"
  WaitForReceipt :: "bytes32 \<Rightarrow> bool"
  BalanceAt_after :: "go_error + int"
  GetSecretFromLog :: "Log \<Rightarrow> go_error + bytes32"
  View :: "bytes32 \<Rightarrow> go_error + bytes32"
  WriteKeysToFile :: "go_error option"
  CreateMoneroWallet :: "go_error + string"

text \<open>
  The fields of \<open>swapState\<close> that the functions below read or write. \<open>info_Status\<close> and
  \<open>info_ReceivedAmount\<close> are \<open>s.info.Status()\<close> and \<open>s.info.ReceivedAmount()\<close>;
  \<open>nextExpectedMessage\<close> is the dynamic type of the expected message, which is all the type
  switch looks at; \<open>cancelled\<close> records that \<open>s.cancel()\<close> ran. The key fields are
  taken to be set, as they are once the keys were exchanged.
\<close>

record swapState =
  info_Status :: Status
  info_ReceivedAmount :: "64 word"
  offerID :: bytes32
  secp256k1Pub :: bytes
  contractSwapID :: int
  contractAddr :: address
  t0 :: Time
  t1 :: Time
  aliceSecp256K1PublicKey :: bytes
  nextExpectedMessage :: Type
  moneroReclaimAddress :: string
  cancelled :: bool

text \<open>
  What changes outside the swap state: the clock, the calls of the contract's \<open>Claim\<close> made
  so far (each with the time of the call and the swap ID), and the three effects of
  \<open>ProtocolExited\<close> on the instance (\<open>s.bob.swapState = nil\<close>, \<open>CompleteOngoingSwap\<close>,
  \<open>deleteOffer\<close>).
\<close>

record World =
  clock :: Time
  claim_calls :: "(Time \<times> int) list"
  bob_swapState_set :: bool
  ongoing_completed :: bool
  deleted_offers :: "bytes32 list"

definition time_Until :: "World \<Rightarrow> Time \<Rightarrow> Duration" where
  "time_Until w t = Time_Sub t (clock w)"

text \<open>
  \<open><-time.After(d)\<close> blocks until \<open>d\<close> has passed, and not at all when \<open>d\<close> is not
  positive; the clock moves by exactly that much.
\<close>

definition wait_After :: "Duration \<Rightarrow> World \<Rightarrow> World" where
  "wait_After d w = w\<lparr>clock := clock w + max d 0\<rparr>"

definition refundedTopic :: bytes32 where
  "refundedTopic = 0x4fd30f3ee0d64f7eaa62d0e005ca64c6a560652156d6c33f23ea8ca4936106e0"

definition newTopic :: bytes32 where
  "newTopic = 0x982a99d883f17ecd5797205d5b3674205d7882bb28a9487d736d3799422cd055"

definition claimFunds :: "Env \<Rightarrow> swapState \<Rightarrow> World \<Rightarrow> (go_error + bytes32) \<times> World" where
  "claimFunds E s w =
     (case BalanceAt_before E of
        Inl err \<Rightarrow> (Inl err, w)
      | Inr _ \<Rightarrow>
          (let w' = w\<lparr>claim_calls := claim_calls w @ [(clock w, contractSwapID s)]\<rparr> in
           case Claim E (contractSwapID s) of
             Inl err \<Rightarrow> (Inl err, w')
           | Inr txHash \<Rightarrow>
               if \<not> WaitForReceipt E txHash
                 then (Inl (Err ''failed to check Claim transaction receipt''), w')
               else (case BalanceAt_after E of
                       Inl err \<Rightarrow> (Inl err, w')
                     | Inr _ \<Rightarrow> (Inr txHash, w'))))"

definition tryClaim :: "Env \<Rightarrow> swapState \<Rightarrow> World \<Rightarrow> (go_error + bytes32) \<times> World" where
  "tryClaim E s w =
     (let untilT0 = time_Until w (t0 s);
          untilT1 = time_Until w (t1 s) in
      case Swaps E (contractSwapID s) of
        Inl err \<Rightarrow> (Inl err, w)
      | Inr info \<Rightarrow>
          (let w' = (if untilT0 > 0 \<and> \<not> IsReady info
                       then wait_After (Duration_add untilT0 Second) w else w) in
           if untilT1 < 0 then (Inl errPastClaimTime, w')
           else claimFunds E s w'))"

definition filterForRefund :: "Env \<Rightarrow> swapState \<Rightarrow> go_error + bytes32" where
  "filterForRefund E s =
     (case FilterLogs E (contractAddr s) refundedTopic of
        Inl err \<Rightarrow> Inl (Wrap ''failed to filter logs'' err)
      | Inr logs \<Rightarrow>
          (case logs of
             [] \<Rightarrow> Inl errNoRefundLogsFound
           | l # _ \<Rightarrow>
               (case GetSecretFromLog E l of
                  Inl err \<Rightarrow> Inl (Wrap ''failed to get secret from log'' err)
                | Inr sa \<Rightarrow> Inr sa)))"

definition reclaimMonero :: "Env \<Rightarrow> swapState \<Rightarrow> bytes32 \<Rightarrow> go_error + string" where
  "reclaimMonero E s skA =
     (case View E skA of
        Inl err \<Rightarrow> Inl err
      | Inr vkA \<Rightarrow>
          (case WriteKeysToFile E of
             Some err \<Rightarrow> Inl err
           | None \<Rightarrow> CreateMoneroWallet E))"

definition tryReclaimMonero :: "Env \<Rightarrow> swapState \<Rightarrow> go_error + string" where
  "tryReclaimMonero E s =
     (case filterForRefund E s of
        Inl err \<Rightarrow> Inl err
      | Inr skA \<Rightarrow> reclaimMonero E s skA)"

text \<open>The deferred function of \<open>ProtocolExited\<close>, which runs on every return.\<close>

definition exit_deferred ::
  "go_error option \<times> swapState \<times> World \<Rightarrow> go_error option \<times> swapState \<times> World" where
  "exit_deferred r =
     (case r of (err, s, w) \<Rightarrow>
        (err, s\<lparr>cancelled := True\<rparr>, w\<lparr>bob_swapState_set := False, ongoing_completed := True\<rparr>))"

definition ProtocolExited ::
  "Env \<Rightarrow> swapState \<Rightarrow> World \<Rightarrow> go_error option \<times> swapState \<times> World" where
  "ProtocolExited E s w = exit_deferred
     (if info_Status s = pswap_Success
        then (None, s, w\<lparr>deleted_offers := deleted_offers w @ [offerID s]\<rparr>)
      else if info_Status s = pswap_Refunded then (None, s, w)
      else if nextExpectedMessage s = SendKeysType
        then (Some (Err ''protocol exited before any funds were locked''),
              s\<lparr>info_Status := pswap_Aborted\<rparr>, w)
      else if nextExpectedMessage s = NotifyContractDeployedType
        then (Some (Err ''protocol exited before any funds were locked''),
              s\<lparr>info_Status := pswap_Aborted\<rparr>, w)
      else if nextExpectedMessage s = NotifyReadyType
        then (case tryClaim E s w of
                (Inr txHash, w') \<Rightarrow> (None, s, w')
              | (Inl _, w') \<Rightarrow>
                  (case tryReclaimMonero E s of
                     Inl err \<Rightarrow> (Some err, s, w')
                   | Inr addr \<Rightarrow>
                       (None,
                        s\<lparr>info_Status := pswap_Refunded, moneroReclaimAddress := addr\<rparr>,
                        w')))
      else (Some (Err ''unexpected message type''), s\<lparr>info_Status := pswap_Aborted\<rparr>, w))"

text \<open>
  \<open>checkContract\<close>. Its loop goes through the logs from the last to the first, fails on
  the first log it cannot parse, and stops at the first event with the swap ID:
  \<open>find_New\<close> takes the logs in that order. The messages of the errors are kept without
  their formatted arguments.
\<close>

fun find_New :: "(Log \<Rightarrow> go_error + NewEvent) \<Rightarrow> int \<Rightarrow> Log list \<Rightarrow> go_error + NewEvent option" where
  "find_New parse swapID [] = Inr None"
| "find_New parse swapID (l # ls) =
     (case parse l of
        Inl err \<Rightarrow> Inl err
      | Inr newEvent \<Rightarrow>
          if SwapID newEvent = swapID then Inr (Some newEvent) else find_New parse swapID ls)"

definition checkContract :: "Env \<Rightarrow> swapState \<Rightarrow> go_error option" where
  "checkContract E s =
     (case FilterLogs E (contractAddr s) newTopic of
        Inl err \<Rightarrow> Some (Wrap ''failed to filter logs'' err)
      | Inr logs \<Rightarrow>
          if length logs = 0 then Some (Err ''cannot find New log'')
          else
            (case find_New (ParseNew E) (contractSwapID s) (rev logs) of
               Inl err \<Rightarrow> Some err
             | Inr None \<Rightarrow> Some (Err ''failed to find New event with given swap ID'')
             | Inr (Some event) \<Rightarrow>
                 if ClaimKey event \<noteq> Keccak256 E (secp256k1Pub s)
                   then Some (Err ''contract claim key is not expected'')
                 else if RefundKey event \<noteq> Keccak256 E (aliceSecp256K1PublicKey s)
                   then Some (Err ''contract refund key is not expected'')
                 else
                   (case Swaps E (contractSwapID s) of
                      Inl err \<Rightarrow> Some err
                    | Inr info \<Rightarrow>
                        if Value info < EtherToWei E (info_ReceivedAmount s)
                          then Some (Err ''contract does not have expected balance'')
                        else None)))"

text \<open>
  The weakest reading of "the timeouts are consistent": the spec's data model has
  \<open>t1 = t0 + \<Delta>\<close> for the swap timeout \<open>\<Delta>\<close>, so \<open>t0\<close> is not after \<open>t1\<close>, in the event and
  in the stored swap.
\<close>

definition timeouts_consistent :: "NewEvent \<Rightarrow> SwapInfo \<Rightarrow> bool" where
  "timeouts_consistent event info =
     (New_timeout_0 event \<le> New_timeout_1 event \<and> Timeout0 info \<le> Timeout1 info)"

text \<open>
  Sample values on which the functions of the Maker are run: a chain with one \<open>New\<close> log for
  swap 7, holding 50 wei, with the keys the Maker expects and \<open>t0\<close> at 100 s, \<open>t1\<close> at
  200 s; no \<open>Refunded\<close> log; a Maker that has locked its monero and waits for \<open>NotifyReady\<close>.
\<close>

definition sample_Env :: Env where
  "sample_Env =
     \<lparr> FilterLogs = (\<lambda>a t. if t = newTopic then Inr [\<lparr>Topics = [newTopic], Data = []\<rparr>]
                            else Inr []),
       ParseNew = (\<lambda>l. Inr \<lparr>SwapID = 7, ClaimKey = 11, RefundKey = 12,
                             New_timeout_0 = 100, New_timeout_1 = 200\<rparr>),
       Swaps = (\<lambda>i. Inr \<lparr>IsReady = True, Timeout0 = 100, Timeout1 = 200, Value = 50\<rparr>),
       Keccak256 = (\<lambda>k. if k = ''maker'' then 11 else 12),
       EtherToWei = (\<lambda>a. 50),
       BalanceAt_before = Inr 0,
       Claim = (\<lambda>i. Inr 99),
       WaitForReceipt = (\<lambda>h. True),
       BalanceAt_after = Inr 50,
       GetSecretFromLog = (\<lambda>l. Inr 5),
       View = (\<lambda>k. Inr 6),
       WriteKeysToFile = None,
       CreateMoneroWallet = Inr ''4A'' \<rparr>"

text \<open>The same chain with the swap not ready and \<open>t1\<close> one second after \<open>t0\<close>.\<close>

definition sample_Env_not_ready :: Env where
  "sample_Env_not_ready =
     sample_Env\<lparr>Swaps := (\<lambda>i. Inr \<lparr>IsReady = False, Timeout0 = 100, Timeout1 = 101,
                                      Value = 50\<rparr>)\<rparr>"

text \<open>The same chain with \<open>t0 = 200\<close> after \<open>t1 = 100\<close>, in the event and in the stored swap.\<close>

definition sample_Env_bad_timeouts :: Env where
  "sample_Env_bad_timeouts =
     sample_Env\<lparr>ParseNew := (\<lambda>l. Inr \<lparr>SwapID = 7, ClaimKey = 11, RefundKey = 12,
                                         New_timeout_0 = 200, New_timeout_1 = 100\<rparr>),
                 Swaps := (\<lambda>i. Inr \<lparr>IsReady = False, Timeout0 = 200, Timeout1 = 100,
                                    Value = 50\<rparr>)\<rparr>"

definition sample_swapState :: swapState where
  "sample_swapState =
     \<lparr> info_Status = pswap_Ongoing, info_ReceivedAmount = 0, offerID = 1,
       secp256k1Pub = ''maker'', contractSwapID = 7, contractAddr = 3,
       t0 = 100 * Second, t1 = 200 * Second, aliceSecp256K1PublicKey = ''taker'',
       nextExpectedMessage = NotifyReadyType, moneroReclaimAddress = [], cancelled = False \<rparr>"

definition sample_World :: World where
  "sample_World =
     \<lparr> clock = 0, claim_calls = [], bob_swapState_set = True, ongoing_completed = False,
       deleted_offers = [] \<rparr>"

section \<open>Properties of the escrow contract\<close>

lemma checked_add_Inr: "checked_add a b = Inr c \<Longrightarrow> unat c = unat a + unat b"
  by (auto simp: checked_add_def unat_word_ariths split: if_splits)

lemma checked_mul_Inr: "checked_mul a b = Inr c \<Longrightarrow> unat c = unat a * unat b"
  by (auto simp: checked_mul_def unat_word_ariths split: if_splits)

lemma build_swap_Inr:
  assumes "build_swap tx pkc pkr clm d n = Inr swap"
  shows "owner swap = msg_sender tx \<and> claimer swap = clm \<and> pubKeyClaim swap = pkc \<and>
         pubKeyRefund swap = pkr \<and> swap_value swap = msg_value tx \<and> nonce swap = n \<and>
         unat (timeout_0 swap) = unat (block_timestamp tx) + unat d \<and>
         unat (timeout_1 swap) = unat (block_timestamp tx) + 2 * unat d"
  using assms
  by (auto simp: build_swap_def split: sum.splits dest!: checked_add_Inr checked_mul_Inr)

lemma build_swap_total:
  assumes "unat (block_timestamp tx) + 2 * unat d < 2 ^ 256"
  shows "\<exists>swap. build_swap tx pkc pkr clm d n = Inr swap"
  using assms
  by (auto simp: build_swap_def checked_add_def checked_mul_def unat_word_ariths split: sum.splits)

text \<open>
  Claim C1. A call of \<open>refund(swap, s)\<close> goes through exactly when the stage stored for the
  swap's ID is \<open>PENDING\<close> or \<open>READY\<close>, the caller is the swap's owner, the time condition
  holds (\<open>now \<ge> t1\<close>, or \<open>now < t0\<close> and the stage is not \<open>READY\<close>) and
  \<open>mulVerify(s, swap.pubKeyRefund)\<close> holds; otherwise it reverts. When it goes through,
  it emits \<open>Refunded(swapID, s)\<close>, transfers the swap's value to the owner and sets the
  stage to \<open>COMPLETED\<close>. In particular a refund at a time in \<open>[t0, t1)\<close> is rejected
  when the stage is \<open>READY\<close>.
\<close>

theorem refund_spec:
  assumes "swapID = keccak256_abi_encode P swap"
  shows
  "((swaps swapID = PENDING \<or> swaps swapID = READY) \<and>
    msg_sender tx = owner swap \<and>
    (block_timestamp tx \<ge> timeout_1 swap \<or>
       (block_timestamp tx < timeout_0 swap \<and> swaps swapID \<noteq> READY)) \<and>
    mulVerify P s (pubKeyRefund swap)
    \<longrightarrow> refund P tx swaps swap s =
          Inr (swaps(swapID := COMPLETED),
               [Emit (Refunded swapID s), Transfer (owner swap) (swap_value swap)]))
   \<and>
   (\<not> ((swaps swapID = PENDING \<or> swaps swapID = READY) \<and>
       msg_sender tx = owner swap \<and>
       (block_timestamp tx \<ge> timeout_1 swap \<or>
          (block_timestamp tx < timeout_0 swap \<and> swaps swapID \<noteq> READY)) \<and>
       mulVerify P s (pubKeyRefund swap))
    \<longrightarrow> (\<exists>e. refund P tx swaps swap s = Inl e))
   \<and>
   (timeout_0 swap \<le> block_timestamp tx \<and> block_timestamp tx < timeout_1 swap \<and>
    swaps swapID = READY
    \<longrightarrow> (\<exists>e. refund P tx swaps swap s = Inl e))"
  using assms
  by (cases "swaps swapID") (auto simp: refund_def verifySecret_def Let_def)

theorem refund_spec_witness:
  "refund sample_Prims
      \<lparr>msg_sender = 1, msg_value = 0, block_timestamp = 300\<rparr>
      (swaps_init(7 := READY))
      \<lparr>owner = 1, claimer = 2, pubKeyClaim = 11, pubKeyRefund = 12, timeout_0 = 100,
        timeout_1 = 200, swap_value = 50, nonce = 7\<rparr> 12
     = Inr (swaps_init(7 := COMPLETED), [Emit (Refunded 7 12), Transfer 1 50])
   \<and> (\<exists>e. refund sample_Prims
      \<lparr>msg_sender = 1, msg_value = 0, block_timestamp = 150\<rparr>
      (swaps_init(7 := READY))
      \<lparr>owner = 1, claimer = 2, pubKeyClaim = 11, pubKeyRefund = 12, timeout_0 = 100,
        timeout_1 = 200, swap_value = 50, nonce = 7\<rparr> 12 = Inl e)"
  using refund_spec [of 7 "sample_Prims"
      "\<lparr>owner = 1, claimer = 2, pubKeyClaim = 11, pubKeyRefund = 12, timeout_0 = 100,
        timeout_1 = 200, swap_value = 50, nonce = 7\<rparr>" "swaps_init(7 := READY)"
      "\<lparr>msg_sender = 1, msg_value = 0, block_timestamp = 300\<rparr>" 12]
    refund_spec [of 7 "sample_Prims"
      "\<lparr>owner = 1, claimer = 2, pubKeyClaim = 11, pubKeyRefund = 12, timeout_0 = 100,
        timeout_1 = 200, swap_value = 50, nonce = 7\<rparr>" "swaps_init(7 := READY)"
      "\<lparr>msg_sender = 1, msg_value = 0, block_timestamp = 150\<rparr>" 12]
  by (simp add: sample_Prims_def)

text \<open>
  Claim C2. A call of \<open>claim(swap, s)\<close> goes through exactly when the stage stored for the
  swap's ID is \<open>PENDING\<close> or \<open>READY\<close>, the caller is the swap's claimer, \<open>now < t1\<close>,
  the stage is \<open>READY\<close> or \<open>now \<ge> t0\<close>, and \<open>mulVerify(s, swap.pubKeyClaim)\<close> holds;
  otherwise it reverts. When it goes through, it emits \<open>Claimed(swapID, s)\<close>, which
  carries the secret \<open>s\<close>, transfers the swap's value to the claimer and sets the stage to
  \<open>COMPLETED\<close>.
\<close>

theorem claim_spec:
  assumes "swapID = keccak256_abi_encode P swap"
  shows
  "((swaps swapID = PENDING \<or> swaps swapID = READY) \<and>
    msg_sender tx = claimer swap \<and>
    block_timestamp tx < timeout_1 swap \<and>
    (swaps swapID = READY \<or> block_timestamp tx \<ge> timeout_0 swap) \<and>
    mulVerify P s (pubKeyClaim swap)
    \<longrightarrow> claim P tx swaps swap s =
          Inr (swaps(swapID := COMPLETED),
               [Emit (Claimed swapID s), Transfer (claimer swap) (swap_value swap)]))
   \<and>
   (\<not> ((swaps swapID = PENDING \<or> swaps swapID = READY) \<and>
       msg_sender tx = claimer swap \<and>
       block_timestamp tx < timeout_1 swap \<and>
       (swaps swapID = READY \<or> block_timestamp tx \<ge> timeout_0 swap) \<and>
       mulVerify P s (pubKeyClaim swap))
    \<longrightarrow> (\<exists>e. claim P tx swaps swap s = Inl e))"
  using assms
  by (cases "swaps swapID") (auto simp: claim_def verifySecret_def Let_def)

theorem claim_spec_witness:
  "claim sample_Prims
      \<lparr>msg_sender = 2, msg_value = 0, block_timestamp = 50\<rparr>
      (swaps_init(7 := READY))
      \<lparr>owner = 1, claimer = 2, pubKeyClaim = 11, pubKeyRefund = 12, timeout_0 = 100,
        timeout_1 = 200, swap_value = 50, nonce = 7\<rparr> 11
     = Inr (swaps_init(7 := COMPLETED), [Emit (Claimed 7 11), Transfer 2 50])
   \<and> (\<exists>e. claim sample_Prims
      \<lparr>msg_sender = 2, msg_value = 0, block_timestamp = 200\<rparr>
      (swaps_init(7 := READY))
      \<lparr>owner = 1, claimer = 2, pubKeyClaim = 11, pubKeyRefund = 12, timeout_0 = 100,
        timeout_1 = 200, swap_value = 50, nonce = 7\<rparr> 11 = Inl e)"
  using claim_spec [of 7 "sample_Prims"
      "\<lparr>owner = 1, claimer = 2, pubKeyClaim = 11, pubKeyRefund = 12, timeout_0 = 100,
        timeout_1 = 200, swap_value = 50, nonce = 7\<rparr>" "swaps_init(7 := READY)"
      "\<lparr>msg_sender = 2, msg_value = 0, block_timestamp = 50\<rparr>" 11]
    claim_spec [of 7 "sample_Prims"
      "\<lparr>owner = 1, claimer = 2, pubKeyClaim = 11, pubKeyRefund = 12, timeout_0 = 100,
        timeout_1 = 200, swap_value = 50, nonce = 7\<rparr>" "swaps_init(7 := READY)"
      "\<lparr>msg_sender = 2, msg_value = 0, block_timestamp = 200\<rparr>" 11]
  by (simp add: sample_Prims_def)

text \<open>
  Claim C5. A call of \<open>new_swap\<close> with timeout duration \<open>d\<close> that creates a swap builds
  the struct with \<open>t0 = block.timestamp + d\<close> and \<open>t1 = block.timestamp + 2 * d\<close> (as
  numbers, without wrap-around), the caller as owner and the call value as value; it
  returns the keccak256 hash of that struct as the swap ID, stores \<open>PENDING\<close> under it and
  emits \<open>New(swapID, pubKeyClaim, pubKeyRefund, t0, t1)\<close>. The call does create a swap
  whenever the timeouts do not overflow and the ID is still \<open>INVALID\<close>.
\<close>

theorem new_swap_spec:
  "(new_swap P tx swaps pkc pkr clm d n = Inr (swapID, swaps', effs) \<longrightarrow>
      (\<exists>swap. owner swap = msg_sender tx \<and> claimer swap = clm \<and> pubKeyClaim swap = pkc \<and>
         pubKeyRefund swap = pkr \<and> swap_value swap = msg_value tx \<and> nonce swap = n \<and>
         unat (timeout_0 swap) = unat (block_timestamp tx) + unat d \<and>
         unat (timeout_1 swap) = unat (block_timestamp tx) + 2 * unat d \<and>
         swapID = keccak256_abi_encode P swap \<and>
         effs = [Emit (New swapID pkc pkr (timeout_0 swap) (timeout_1 swap))] \<and>
         swaps' = swaps(swapID := PENDING)))
   \<and>
   (unat (block_timestamp tx) + 2 * unat d < 2 ^ 256 \<and>
    (\<forall>swap. build_swap tx pkc pkr clm d n = Inr swap \<longrightarrow>
        swaps (keccak256_abi_encode P swap) = INVALID)
    \<longrightarrow> (\<exists>r. new_swap P tx swaps pkc pkr clm d n = Inr r))"
proof (intro conjI impI)
  assume ok: "new_swap P tx swaps pkc pkr clm d n = Inr (swapID, swaps', effs)"
  then obtain swap where b: "build_swap tx pkc pkr clm d n = Inr swap"
    by (auto simp: new_swap_def split: sum.splits)
  from ok b have "swapID = keccak256_abi_encode P swap"
    and "effs = [Emit (New swapID pkc pkr (timeout_0 swap) (timeout_1 swap))]"
    and "swaps' = swaps(swapID := PENDING)"
    by (auto simp: new_swap_def Let_def split: if_splits)
  with build_swap_Inr [OF b]
  show "\<exists>swap. owner swap = msg_sender tx \<and> claimer swap = clm \<and> pubKeyClaim swap = pkc \<and>
         pubKeyRefund swap = pkr \<and> swap_value swap = msg_value tx \<and> nonce swap = n \<and>
         unat (timeout_0 swap) = unat (block_timestamp tx) + unat d \<and>
         unat (timeout_1 swap) = unat (block_timestamp tx) + 2 * unat d \<and>
         swapID = keccak256_abi_encode P swap \<and>
         effs = [Emit (New swapID pkc pkr (timeout_0 swap) (timeout_1 swap))] \<and>
         swaps' = swaps(swapID := PENDING)"
    by blast
next
  assume a: "unat (block_timestamp tx) + 2 * unat d < 2 ^ 256 \<and>
    (\<forall>swap. build_swap tx pkc pkr clm d n = Inr swap \<longrightarrow>
        swaps (keccak256_abi_encode P swap) = INVALID)"
  then obtain swap where b: "build_swap tx pkc pkr clm d n = Inr swap"
    using build_swap_total by blast
  with a show "\<exists>r. new_swap P tx swaps pkc pkr clm d n = Inr r"
    by (simp add: new_swap_def Let_def)
qed

theorem new_swap_spec_witness:
  "new_swap sample_Prims
       \<lparr>msg_sender = 1, msg_value = 50, block_timestamp = 1000\<rparr> swaps_init 11 12 2 100 7
     = Inr (7, swaps_init(7 := PENDING), [Emit (New 7 11 12 1100 1200)])
   \<and> (\<exists>swap. owner swap = msg_sender \<lparr>msg_sender = 1, msg_value = 50, block_timestamp = 1000\<rparr> \<and>
         claimer swap = 2 \<and> pubKeyClaim swap = 11 \<and> pubKeyRefund swap = 12 \<and>
         swap_value swap = msg_value \<lparr>msg_sender = 1, msg_value = 50, block_timestamp = 1000\<rparr> \<and>
         nonce swap = 7 \<and>
         unat (timeout_0 swap) =
           unat (block_timestamp \<lparr>msg_sender = 1, msg_value = 50, block_timestamp = 1000\<rparr>)
             + unat (100 :: uint256) \<and>
         unat (timeout_1 swap) =
           unat (block_timestamp \<lparr>msg_sender = 1, msg_value = 50, block_timestamp = 1000\<rparr>)
             + 2 * unat (100 :: uint256) \<and>
         (7 :: bytes32) =
           keccak256_abi_encode sample_Prims swap \<and>
         [Emit (New 7 11 12 1100 1200)] = [Emit (New 7 11 12 (timeout_0 swap) (timeout_1 swap))] \<and>
         swaps_init(7 := PENDING) = swaps_init(7 := PENDING))
   \<and> unat (block_timestamp \<lparr>msg_sender = 1, msg_value = 50, block_timestamp = 1000\<rparr>)
         + 2 * unat (100 :: uint256) < 2 ^ 256
   \<and> (\<exists>r. new_swap sample_Prims
         \<lparr>msg_sender = 1, msg_value = 50, block_timestamp = 1000\<rparr> swaps_init 11 12 2 100 7
         = Inr r)"
proof -
  have e: "new_swap sample_Prims
       \<lparr>msg_sender = 1, msg_value = 50, block_timestamp = 1000\<rparr> swaps_init 11 12 2 100 7
     = Inr (7, swaps_init(7 := PENDING), [Emit (New 7 11 12 1100 1200)])"
    by (simp add: new_swap_def build_swap_def checked_add_def checked_mul_def swaps_init_def
        sample_Prims_def)
  have small: "unat (block_timestamp \<lparr>msg_sender = 1, msg_value = 50, block_timestamp = 1000\<rparr>)
         + 2 * unat (100 :: uint256) < 2 ^ 256"
    by simp
  have fresh: "\<forall>swap. build_swap \<lparr>msg_sender = 1, msg_value = 50, block_timestamp = 1000\<rparr>
         11 12 2 100 7 = Inr swap \<longrightarrow>
       swaps_init (keccak256_abi_encode
         sample_Prims swap) = INVALID"
    by (simp add: swaps_init_def)
  have total: "\<exists>r. new_swap sample_Prims
         \<lparr>msg_sender = 1, msg_value = 50, block_timestamp = 1000\<rparr> swaps_init 11 12 2 100 7
         = Inr r"
    by (rule mp [OF conjunct2 [OF new_swap_spec] conjI [OF small fresh]])
  show ?thesis
    by (intro conjI mp [OF conjunct1 [OF new_swap_spec] e] e small total)
qed

text \<open>
  Claim C10. A call of \<open>new_swap\<close> whose struct hashes to an ID that is stored with a
  stage other than \<open>INVALID\<close> reverts, and the storage after the call is the storage
  before it: an existing swap is not overwritten and not set back to \<open>PENDING\<close>.
\<close>

theorem new_swap_existing_reverts:
  assumes "build_swap tx pkc pkr clm d n = Inr swap"
      and "swaps (keccak256_abi_encode P swap) \<noteq> INVALID"
  shows "new_swap P tx swaps pkc pkr clm d n = Inl (Require [])
         \<and> storage_after P tx swaps (Call_new_swap pkc pkr clm d n) = swaps"
  using assms by (simp add: new_swap_def Let_def)

theorem new_swap_existing_reverts_witness:
  "build_swap \<lparr>msg_sender = 1, msg_value = 50, block_timestamp = 1000\<rparr> 11 12 2 100 7
     = Inr \<lparr>owner = 1, claimer = 2, pubKeyClaim = 11, pubKeyRefund = 12, timeout_0 = 1100,
        timeout_1 = 1200, swap_value = 50, nonce = 7\<rparr>
   \<and> (swaps_init(7 := READY)) 7 \<noteq> INVALID
   \<and> new_swap sample_Prims
       \<lparr>msg_sender = 1, msg_value = 50, block_timestamp = 1000\<rparr> (swaps_init(7 := READY))
       11 12 2 100 7 = Inl (Require [])
   \<and> storage_after sample_Prims
       \<lparr>msg_sender = 1, msg_value = 50, block_timestamp = 1000\<rparr> (swaps_init(7 := READY))
       (Call_new_swap 11 12 2 100 7) 7 = READY"
proof -
  have b: "build_swap \<lparr>msg_sender = 1, msg_value = 50, block_timestamp = 1000\<rparr> 11 12 2 100 7
     = Inr \<lparr>owner = 1, claimer = 2, pubKeyClaim = 11, pubKeyRefund = 12, timeout_0 = 1100,
        timeout_1 = 1200, swap_value = 50, nonce = 7\<rparr>"
    by (simp add: build_swap_def checked_add_def checked_mul_def)
  have s: "(swaps_init(7 := READY))
     (keccak256_abi_encode sample_Prims
        \<lparr>owner = 1, claimer = 2, pubKeyClaim = 11, pubKeyRefund = 12, timeout_0 = 1100,
        timeout_1 = 1200, swap_value = 50, nonce = 7\<rparr>) \<noteq> INVALID"
    by (simp add: sample_Prims_def)
  from new_swap_existing_reverts
    [of "\<lparr>msg_sender = 1, msg_value = 50, block_timestamp = 1000\<rparr>" 11 12 2 100 7 _
        "swaps_init(7 := READY)" "sample_Prims",
     OF b s] b
  show ?thesis by simp
qed

text \<open>
  Claim C6. For every swap ID and every state-changing call, the stage stored for the ID
  is either left as it was or moved along one of the allowed steps: \<open>INVALID\<close> to
  \<open>PENDING\<close> by \<open>new_swap\<close>; \<open>PENDING\<close> to \<open>READY\<close> by \<open>set_ready\<close> of a swap
  with that ID, called by its owner; \<open>PENDING\<close> or \<open>READY\<close> to \<open>COMPLETED\<close> by
  \<open>claim\<close> or \<open>refund\<close>. \<open>set_ready\<close> goes through exactly when the stage is
  \<open>PENDING\<close> and the caller is the swap's owner, and then emits \<open>Ready(swapID)\<close>.
\<close>

theorem stage_transitions:
  "(storage_after P tx swaps c i = swaps i
    \<or> (swaps i = INVALID \<and> storage_after P tx swaps c i = PENDING \<and>
        (\<exists>pkc pkr clm d n. c = Call_new_swap pkc pkr clm d n))
    \<or> (swaps i = PENDING \<and> storage_after P tx swaps c i = READY \<and>
        (\<exists>swap. c = Call_set_ready swap \<and> i = keccak256_abi_encode P swap \<and>
                 owner swap = msg_sender tx))
    \<or> ((swaps i = PENDING \<or> swaps i = READY) \<and> storage_after P tx swaps c i = COMPLETED \<and>
        (\<exists>swap s. c = Call_claim swap s \<or> c = Call_refund swap s)))
   \<and>
   (swaps (keccak256_abi_encode P swap) = PENDING \<and> owner swap = msg_sender tx
      \<longrightarrow> set_ready P tx swaps swap =
            Inr (swaps(keccak256_abi_encode P swap := READY),
                 [Emit (Ready (keccak256_abi_encode P swap))]))
   \<and>
   (\<not> (swaps (keccak256_abi_encode P swap) = PENDING \<and> owner swap = msg_sender tx)
      \<longrightarrow> (\<exists>e. set_ready P tx swaps swap = Inl e))"
proof (intro conjI)
  show "storage_after P tx swaps c i = swaps i
    \<or> (swaps i = INVALID \<and> storage_after P tx swaps c i = PENDING \<and>
        (\<exists>pkc pkr clm d n. c = Call_new_swap pkc pkr clm d n))
    \<or> (swaps i = PENDING \<and> storage_after P tx swaps c i = READY \<and>
        (\<exists>swap. c = Call_set_ready swap \<and> i = keccak256_abi_encode P swap \<and>
                 owner swap = msg_sender tx))
    \<or> ((swaps i = PENDING \<or> swaps i = READY) \<and> storage_after P tx swaps c i = COMPLETED \<and>
        (\<exists>swap s. c = Call_claim swap s \<or> c = Call_refund swap s))"
  proof (cases c)
    case (Call_new_swap pkc pkr clm d n)
    then show ?thesis
      by (auto simp: new_swap_def Let_def split: sum.splits if_splits)
  next
    case (Call_set_ready swap)
    then show ?thesis
      by (auto simp: set_ready_def Let_def split: if_splits)
  next
    case (Call_claim swap s)
    then show ?thesis
      by (cases "swaps (keccak256_abi_encode P swap)")
         (auto simp: claim_def verifySecret_def Let_def split: if_splits)
  next
    case (Call_refund swap s)
    then show ?thesis
      by (cases "swaps (keccak256_abi_encode P swap)")
         (auto simp: refund_def verifySecret_def Let_def split: if_splits)
  qed
next
  show "swaps (keccak256_abi_encode P swap) = PENDING \<and> owner swap = msg_sender tx
      \<longrightarrow> set_ready P tx swaps swap =
            Inr (swaps(keccak256_abi_encode P swap := READY),
                 [Emit (Ready (keccak256_abi_encode P swap))])"
    by (simp add: set_ready_def Let_def)
next
  show "\<not> (swaps (keccak256_abi_encode P swap) = PENDING \<and> owner swap = msg_sender tx)
      \<longrightarrow> (\<exists>e. set_ready P tx swaps swap = Inl e)"
    by (auto simp: set_ready_def Let_def)
qed

theorem stage_transitions_witness:
  "set_ready sample_Prims
      \<lparr>msg_sender = 1, msg_value = 0, block_timestamp = 50\<rparr>
      (swaps_init(7 := PENDING))
      \<lparr>owner = 1, claimer = 2, pubKeyClaim = 11, pubKeyRefund = 12, timeout_0 = 100,
        timeout_1 = 200, swap_value = 50, nonce = 7\<rparr>
     = Inr (swaps_init(7 := READY), [Emit (Ready 7)])
   \<and> (\<exists>e. set_ready sample_Prims
      \<lparr>msg_sender = 2, msg_value = 0, block_timestamp = 50\<rparr>
      (swaps_init(7 := PENDING))
      \<lparr>owner = 1, claimer = 2, pubKeyClaim = 11, pubKeyRefund = 12, timeout_0 = 100,
        timeout_1 = 200, swap_value = 50, nonce = 7\<rparr> = Inl e)"
  using stage_transitions [of "sample_Prims"
      "\<lparr>msg_sender = 1, msg_value = 0, block_timestamp = 50\<rparr>" "swaps_init(7 := PENDING)" _ _
      "\<lparr>owner = 1, claimer = 2, pubKeyClaim = 11, pubKeyRefund = 12, timeout_0 = 100,
        timeout_1 = 200, swap_value = 50, nonce = 7\<rparr>"]
    stage_transitions [of "sample_Prims"
      "\<lparr>msg_sender = 2, msg_value = 0, block_timestamp = 50\<rparr>" "swaps_init(7 := PENDING)" _ _
      "\<lparr>owner = 1, claimer = 2, pubKeyClaim = 11, pubKeyRefund = 12, timeout_0 = 100,
        timeout_1 = 200, swap_value = 50, nonce = 7\<rparr>"]
  by (simp add: sample_Prims_def)

section \<open>Properties of the message codec\<close>

text \<open>
  Every message other than \<open>NotifyRefund\<close> is decoded back from its encoding, as far as
  the JSON library reads back what it wrote for that message.
\<close>

lemma DecodeMessage_Encode_roundtrip:
  assumes "Type_of m \<noteq> NotifyRefundType"
      and "Encode J m = Inr b"
      and "case m of
             Msg_QueryResponse p \<Rightarrow> Unmarshal_QueryResponse J (tl b) = Inr p
           | Msg_SendKeysMessage p \<Rightarrow> Unmarshal_SendKeysMessage J (tl b) = Inr p
           | Msg_NotifyContractDeployed p \<Rightarrow> Unmarshal_NotifyContractDeployed J (tl b) = Inr p
           | Msg_NotifyXMRLock p \<Rightarrow> Unmarshal_NotifyXMRLock J (tl b) = Inr p
           | Msg_NotifyReady p \<Rightarrow> Unmarshal_NotifyReady J (tl b) = Inr p
           | Msg_NotifyClaimed p \<Rightarrow> Unmarshal_NotifyClaimed J (tl b) = Inr p
           | Msg_NotifyRefund p \<Rightarrow> True"
  shows "DecodeMessage J b = Inr m"
  using assms
  by (cases m) (auto simp: prepend_type_def decode_with_def split: sum.splits)

text \<open>
  Claim C3 asks that decoding the encoding of a message of every type, \<open>NotifyRefund\<close>
  included, gives the message back. \<open>Encode\<close> of a \<open>NotifyRefund\<close> puts the byte of
  \<open>NotifyRefundType\<close> in front, and \<open>DecodeMessage\<close> has no case for that byte: whatever
  the body, it answers "invalid message type". The same on the message
  \<open>NotifyRefund{TxHash: "0xab"}\<close>.
\<close>

theorem DecodeMessage_NotifyRefund_fails:
  "Encode J (Msg_NotifyRefund m) = prepend_type NotifyRefundType (Marshal_NotifyRefund J m)
   \<and> DecodeMessage J (Type_byte NotifyRefundType # body) = Inl (Err ''invalid message type'')
   \<and> Encode sample_JSON (Msg_NotifyRefund (Some \<lparr>NotifyRefund_TxHash = ''0xab''\<rparr>))
       = Inr (CHR 0x06 # ''{\"TxHash\":\"0xab\"}'')
   \<and> DecodeMessage sample_JSON (CHR 0x06 # ''{\"TxHash\":\"0xab\"}'')
       = Inl (Err ''invalid message type'')"
  by (simp add: sample_JSON_def sample_marshal_field_def prepend_type_def)

lemma DecodeMessage_unknown_tag:
  assumes "t \<notin> range Type_byte \<or> t = Type_byte NotifyRefundType \<or> t = Type_byte NilType"
  shows "DecodeMessage J (t # body) = Inl (Err ''invalid message type'')"
proof -
  have "t \<noteq> Type_byte QueryResponseType" "t \<noteq> Type_byte SendKeysType"
    "t \<noteq> Type_byte NotifyContractDeployedType" "t \<noteq> Type_byte NotifyXMRLockType"
    "t \<noteq> Type_byte NotifyReadyType" "t \<noteq> Type_byte NotifyClaimedType"
    using assms by (auto simp del: Type_byte.simps) (simp_all)
  then show ?thesis by (simp del: Type_byte.simps)
qed

text \<open>
  Claim C9. \<open>DecodeMessage\<close> returns an error, and no message, on the empty input, on an
  input whose first byte is not the byte of a message type (and also on the bytes of
  \<open>NotifyRefundType\<close> and \<open>NilType\<close>), and on an input whose body the JSON library
  rejects for the type named by the first byte.
\<close>

theorem DecodeMessage_rejects:
  assumes "b = []
     \<or> (\<exists>t body. b = t # body \<and>
           (t \<notin> range Type_byte \<or> t = Type_byte NotifyRefundType \<or> t = Type_byte NilType))
     \<or> (\<exists>body err. b = Type_byte QueryResponseType # body \<and> Unmarshal_QueryResponse J body = Inl err)
     \<or> (\<exists>body err. b = Type_byte SendKeysType # body \<and> Unmarshal_SendKeysMessage J body = Inl err)
     \<or> (\<exists>body err. b = Type_byte NotifyContractDeployedType # body \<and>
           Unmarshal_NotifyContractDeployed J body = Inl err)
     \<or> (\<exists>body err. b = Type_byte NotifyXMRLockType # body \<and> Unmarshal_NotifyXMRLock J body = Inl err)
     \<or> (\<exists>body err. b = Type_byte NotifyReadyType # body \<and> Unmarshal_NotifyReady J body = Inl err)
     \<or> (\<exists>body err. b = Type_byte NotifyClaimedType # body \<and> Unmarshal_NotifyClaimed J body = Inl err)"
  shows "\<exists>err. DecodeMessage J b = Inl err"
proof -
  have tag: "\<exists>err. DecodeMessage J (t # body) = Inl err"
    if "t \<notin> range Type_byte \<or> t = Type_byte NotifyRefundType \<or> t = Type_byte NilType"
    for t body
    by (rule exI, rule DecodeMessage_unknown_tag, rule that)
  have body: "\<exists>err'. decode_with u w bd = (Inl err' :: go_error + 'a Message)"
    if "u bd = Inl err" for u :: "bytes \<Rightarrow> go_error + 'b option" and w bd err
    using that by (simp add: decode_with_def)
  from assms show ?thesis
  proof (elim disjE exE conjE)
    assume "b = []"
    then show ?thesis by simp
  next
    fix t body assume "b = t # body" "t \<notin> range Type_byte"
    then show ?thesis using tag [of t body] by blast
  next
    fix t body assume "b = t # body" "t = Type_byte NotifyRefundType"
    then show ?thesis using tag [of t body] by blast
  next
    fix t body assume "b = t # body" "t = Type_byte NilType"
    then show ?thesis using tag [of t body] by blast
  qed (simp_all add: body)
qed

theorem DecodeMessage_rejects_witness:
  "(\<exists>err. DecodeMessage sample_JSON [] = Inl err)
   \<and> CHR 0x09 \<notin> range Type_byte
   \<and> (\<exists>err. DecodeMessage sample_JSON (CHR 0x09 # ''{}'') = Inl err)
   \<and> Unmarshal_NotifyClaimed sample_JSON ''{\"TxHash\":''
        = Inl (Err ''unexpected end of JSON input'')
   \<and> (\<exists>err. DecodeMessage sample_JSON (Type_byte NotifyClaimedType # ''{\"TxHash\":'') = Inl err)"
proof -
  have nine: "CHR 0x09 \<notin> range Type_byte"
  proof
    assume "CHR 0x09 \<in> range Type_byte"
    then obtain t where "CHR 0x09 = Type_byte t" by (rule rangeE)
    then show False by (cases t) simp_all
  qed
  have bad: "Unmarshal_NotifyClaimed sample_JSON ''{\"TxHash\":''
        = Inl (Err ''unexpected end of JSON input'')"
    by (simp add: sample_JSON_def sample_unmarshal_field_def Let_def)
  have 1: "\<exists>err. DecodeMessage sample_JSON [] = Inl err"
    by (rule DecodeMessage_rejects) simp
  have 2: "\<exists>err. DecodeMessage sample_JSON (CHR 0x09 # ''{}'') = Inl err"
    by (rule DecodeMessage_rejects) (simp add: nine)
  have 3: "\<exists>err. DecodeMessage sample_JSON (Type_byte NotifyClaimedType # ''{\"TxHash\":'') = Inl err"
    by (rule DecodeMessage_rejects) (simp add: bad del: Type_byte.simps)
  from 1 nine 2 bad 3 show ?thesis by (intro conjI)
qed

section \<open>Properties of the Maker\<close>

lemmas sample_defs = sample_Env_def sample_Env_not_ready_def sample_Env_bad_timeouts_def
  sample_swapState_def sample_World_def

lemmas time_defs = time_Until_def Time_Sub_def minDuration_def maxDuration_def Second_def
  wait_After_def Duration_add_def

lemma Time_Sub_neg: "Time_Sub t u < 0 \<longleftrightarrow> t < u"
  by (auto simp: Time_Sub_def minDuration_def maxDuration_def Let_def)

lemma tryClaim_past_t1:
  assumes "t1 s < clock w" and "Swaps E (contractSwapID s) = Inr info"
  shows "fst (tryClaim E s w) = Inl errPastClaimTime
         \<and> claim_calls (snd (tryClaim E s w)) = claim_calls w"
  using assms
  by (simp add: tryClaim_def time_Until_def Time_Sub_neg wait_After_def Let_def)

text \<open>
  Claim C8 asks that \<open>tryClaim\<close> never calls the contract's claim at or after \<open>t1\<close>.
  The test in the code is \<open>untilT1 < 0\<close>, on a value read before the wait. First run:
  the clock is exactly \<open>t1\<close> (200 s) and the contract is ready; \<open>untilT1\<close> is 0, and the
  claim is sent at \<open>t1\<close>. Second run: \<open>t0\<close> is 100 s, \<open>t1\<close> is 101 s, the clock is
  99 s and the contract is not ready; \<open>tryClaim\<close> waits until 101 s and sends the claim
  then, at \<open>t1\<close>, because \<open>untilT1\<close> still holds the 2 s measured before the wait.
\<close>

theorem tryClaim_at_t1:
  "tryClaim sample_Env sample_swapState (sample_World\<lparr>clock := 200 * Second\<rparr>)
     = (Inr 99, sample_World\<lparr>clock := 200 * Second, claim_calls := [(200 * Second, 7)]\<rparr>)
   \<and> tryClaim sample_Env_not_ready (sample_swapState\<lparr>t1 := 101 * Second\<rparr>)
        (sample_World\<lparr>clock := 99 * Second\<rparr>)
     = (Inr 99, sample_World\<lparr>clock := 101 * Second, claim_calls := [(101 * Second, 7)]\<rparr>)"
  by (simp add: tryClaim_def claimFunds_def sample_defs time_defs Let_def)

lemma ProtocolExited_terminal_paths:
  assumes "nextExpectedMessage s \<noteq> NotifyReadyType \<or> terminal (info_Status s)"
  shows "terminal (info_Status (fst (snd (ProtocolExited E s w))))"
  using assms
  by (cases "info_Status s")
     (auto simp: ProtocolExited_def exit_deferred_def split: prod.splits sum.splits)

lemma ProtocolExited_NotifyReady:
  assumes "info_Status s = pswap_Ongoing" and "nextExpectedMessage s = NotifyReadyType"
  shows "info_Status (fst (snd (ProtocolExited E s w))) =
           (case fst (tryClaim E s w) of
              Inr _ \<Rightarrow> pswap_Ongoing
            | Inl _ \<Rightarrow> (case tryReclaimMonero E s of Inl _ \<Rightarrow> pswap_Ongoing | Inr _ \<Rightarrow> pswap_Refunded))"
  using assms
  by (auto simp: ProtocolExited_def exit_deferred_def split: prod.splits sum.splits)

text \<open>
  Claim C7 asks that the status is terminal whenever \<open>ProtocolExited\<close> has returned.
  First run: the Maker waits for \<open>NotifyReady\<close>, the clock is past \<open>t1\<close> and there is
  no \<open>Refunded\<close> log; \<open>tryClaim\<close> fails, \<open>tryReclaimMonero\<close> fails with
  \<open>errNoRefundLogsFound\<close>, and the status is still \<open>Ongoing\<close>. Second run: the clock
  is at 150 s and the claim succeeds; \<open>ProtocolExited\<close> returns \<open>nil\<close> and the status
  is still \<open>Ongoing\<close>.
\<close>

theorem ProtocolExited_leaves_Ongoing:
  "ProtocolExited sample_Env sample_swapState (sample_World\<lparr>clock := 200 * Second + 1\<rparr>)
     = (Some errNoRefundLogsFound,
        sample_swapState\<lparr>cancelled := True\<rparr>,
        sample_World\<lparr>clock := 200 * Second + 1, bob_swapState_set := False,
                      ongoing_completed := True\<rparr>)
   \<and> \<not> terminal (info_Status (fst (snd
         (ProtocolExited sample_Env sample_swapState (sample_World\<lparr>clock := 200 * Second + 1\<rparr>)))))
   \<and> ProtocolExited sample_Env sample_swapState (sample_World\<lparr>clock := 150 * Second\<rparr>)
     = (None,
        sample_swapState\<lparr>cancelled := True\<rparr>,
        sample_World\<lparr>clock := 150 * Second, claim_calls := [(150 * Second, 7)],
                      bob_swapState_set := False, ongoing_completed := True\<rparr>)
   \<and> \<not> terminal (info_Status (fst (snd
         (ProtocolExited sample_Env sample_swapState (sample_World\<lparr>clock := 150 * Second\<rparr>)))))"
  by (simp add: ProtocolExited_def exit_deferred_def tryClaim_def claimFunds_def
      tryReclaimMonero_def filterForRefund_def refundedTopic_def newTopic_def
      sample_defs time_defs Let_def)

text \<open>
  Claim C4, as stated, has \<open>checkContract\<close> return an error whenever the timeouts are
  inconsistent. Here the event and the stored swap both have \<open>t0 = 200\<close> after
  \<open>t1 = 100\<close>, the keys and the value are as expected, and \<open>checkContract\<close> returns
  \<open>nil\<close>.
\<close>

theorem checkContract_ignores_timeouts:
  "ParseNew sample_Env_bad_timeouts \<lparr>Topics = [newTopic], Data = []\<rparr>
     = Inr \<lparr>SwapID = 7, ClaimKey = 11, RefundKey = 12, New_timeout_0 = 200, New_timeout_1 = 100\<rparr>
   \<and> Swaps sample_Env_bad_timeouts 7
     = Inr \<lparr>IsReady = False, Timeout0 = 200, Timeout1 = 100, Value = 50\<rparr>
   \<and> \<not> timeouts_consistent
         \<lparr>SwapID = 7, ClaimKey = 11, RefundKey = 12, New_timeout_0 = 200, New_timeout_1 = 100\<rparr>
         \<lparr>IsReady = False, Timeout0 = 200, Timeout1 = 100, Value = 50\<rparr>
   \<and> checkContract sample_Env_bad_timeouts sample_swapState = None"
  by (simp add: checkContract_def timeouts_consistent_def sample_defs)

lemma find_New_retime:
  "find_New (\<lambda>l. map_sum id (\<lambda>ev. ev\<lparr>New_timeout_0 := a, New_timeout_1 := b\<rparr>) (parse l)) i ls
     = map_sum id (map_option (\<lambda>ev. ev\<lparr>New_timeout_0 := a, New_timeout_1 := b\<rparr>)) (find_New parse i ls)"
  by (induction ls) (auto split: sum.splits)

text \<open>
  Claim C4, amended. \<open>checkContract\<close> returns \<open>nil\<close> exactly when \<open>FilterLogs\<close>
  succeeds, the scan of the \<open>New\<close> logs from the last to the first finds an event with the
  swap's ID before any log that does not parse, the event's claim key is the keccak hash of
  the Maker's secp256k1 public key, its refund key is the keccak hash of the Taker's, the
  \<open>Swaps\<close> call succeeds and the stored value is at least the expected amount; in every
  other case it returns an error. It does not look at any timeout: its result is the same
  whatever the timeouts of the event, of the stored swap and of the swap state are.
\<close>

theorem checkContract_spec:
  "(checkContract E s = None \<longleftrightarrow>
      (\<exists>logs event info.
          FilterLogs E (contractAddr s) newTopic = Inr logs \<and>
          find_New (ParseNew E) (contractSwapID s) (rev logs) = Inr (Some event) \<and>
          ClaimKey event = Keccak256 E (secp256k1Pub s) \<and>
          RefundKey event = Keccak256 E (aliceSecp256K1PublicKey s) \<and>
          Swaps E (contractSwapID s) = Inr info \<and>
          EtherToWei E (info_ReceivedAmount s) \<le> Value info))
   \<and>
   checkContract
      (E\<lparr>ParseNew := (\<lambda>l. map_sum id (\<lambda>ev. ev\<lparr>New_timeout_0 := a, New_timeout_1 := b\<rparr>)
                             (ParseNew E l)),
         Swaps := (\<lambda>i. map_sum id (\<lambda>info. info\<lparr>Timeout0 := c, Timeout1 := d\<rparr>) (Swaps E i))\<rparr>)
      (s\<lparr>t0 := x, t1 := y\<rparr>)
     = checkContract E s"
proof (intro conjI)
  show "checkContract E s = None \<longleftrightarrow>
      (\<exists>logs event info.
          FilterLogs E (contractAddr s) newTopic = Inr logs \<and>
          find_New (ParseNew E) (contractSwapID s) (rev logs) = Inr (Some event) \<and>
          ClaimKey event = Keccak256 E (secp256k1Pub s) \<and>
          RefundKey event = Keccak256 E (aliceSecp256K1PublicKey s) \<and>
          Swaps E (contractSwapID s) = Inr info \<and>
          EtherToWei E (info_ReceivedAmount s) \<le> Value info)"
    by (auto simp: checkContract_def split: sum.splits option.splits if_splits)
next
  show "checkContract
      (E\<lparr>ParseNew := (\<lambda>l. map_sum id (\<lambda>ev. ev\<lparr>New_timeout_0 := a, New_timeout_1 := b\<rparr>)
                             (ParseNew E l)),
         Swaps := (\<lambda>i. map_sum id (\<lambda>info. info\<lparr>Timeout0 := c, Timeout1 := d\<rparr>) (Swaps E i))\<rparr>)
      (s\<lparr>t0 := x, t1 := y\<rparr>)
     = checkContract E s"
    by (cases "find_New (ParseNew E) (contractSwapID s) (rev (projr (FilterLogs E (contractAddr s) newTopic)))";
        cases "Swaps E (contractSwapID s)")
       (auto simp: checkContract_def find_New_retime split: sum.splits option.splits)
qed

theorem checkContract_spec_witness:
  "checkContract sample_Env sample_swapState = None
   \<and> (\<exists>logs event info.
          FilterLogs sample_Env (contractAddr sample_swapState) newTopic = Inr logs \<and>
          find_New (ParseNew sample_Env) (contractSwapID sample_swapState) (rev logs)
            = Inr (Some event) \<and>
          ClaimKey event = Keccak256 sample_Env (secp256k1Pub sample_swapState) \<and>
          RefundKey event = Keccak256 sample_Env (aliceSecp256K1PublicKey sample_swapState) \<and>
          Swaps sample_Env (contractSwapID sample_swapState) = Inr info \<and>
          EtherToWei sample_Env (info_ReceivedAmount sample_swapState) \<le> Value info)"
proof -
  have nil: "checkContract sample_Env sample_swapState = None"
    by (simp add: checkContract_def sample_defs)
  from nil iffD1 [OF conjunct1 [OF checkContract_spec], OF nil] show ?thesis
    by (rule conjI)
qed

end
